theory Spec2Isabelle
  imports Main
begin

section \<open>Python values and the operations the handler applies to them\<close>

text \<open>
  The event handed to \<^verbatim>\<open>lambda_handler\<close> is the result of decoding a JSON document, so it is
  one of the Python values below. A \<^verbatim>\<open>dict\<close> is an association list read with \<open>map_of\<close>
  (keys are strings, as in JSON). JSON numbers are modelled as integers; non-integral
  numbers are not part of the model.
\<close>

datatype json =
    JNull
  | JBool bool
  | JInt int
  | JStr string
  | JList "json list"
  | JObj "(string \<times> json) list"

text \<open>
  The exceptions that can leave the module: the three raised by the interpreter on the
  handler's own expressions, and \<open>ClientError\<close> for whatever an AWS client call raises.
\<close>

datatype py_error =
    TypeError
  | AttributeError
  | KeyError string
  | ClientError string

definition bind_result :: "'e + 'a \<Rightarrow> ('a \<Rightarrow> 'e + 'b) \<Rightarrow> 'e + 'b" where
  "bind_result m f = (case m of Inl e \<Rightarrow> Inl e | Inr x \<Rightarrow> f x)"

fun starts_with :: "string \<Rightarrow> string \<Rightarrow> bool" where
  "starts_with s [] = True"
| "starts_with [] (c # cs) = False"
| "starts_with (x # xs) (c # cs) = (x = c \<and> starts_with xs cs)"

fun str_contains :: "string \<Rightarrow> string \<Rightarrow> bool" where
  "str_contains [] sub = (sub = [])"
| "str_contains (x # xs) sub = (starts_with (x # xs) sub \<or> str_contains xs sub)"

text \<open>
  \<^verbatim>\<open>k in x\<close> for a string \<open>k\<close>: key membership on a dict, element membership on a list,
  substring test on a string, \<^verbatim>\<open>TypeError\<close> on a value that is not a container.
\<close>

fun py_in :: "string \<Rightarrow> json \<Rightarrow> py_error + bool" where
  "py_in k (JObj d) = Inr (map_of d k \<noteq> None)"
| "py_in k (JList xs) = Inr (List.member xs (JStr k))"
| "py_in k (JStr s) = Inr (str_contains s k)"
| "py_in k JNull = Inl TypeError"
| "py_in k (JBool b) = Inl TypeError"
| "py_in k (JInt i) = Inl TypeError"

text \<open>
  \<^verbatim>\<open>x[k]\<close> for a string \<open>k\<close>: a dict gives the value or \<^verbatim>\<open>KeyError\<close>; lists and strings
  want integer indices and the other values are not subscriptable, \<^verbatim>\<open>TypeError\<close> both.
\<close>

fun py_getitem :: "json \<Rightarrow> string \<Rightarrow> py_error + json" where
  "py_getitem (JObj d) k = (case map_of d k of None \<Rightarrow> Inl (KeyError k) | Some v \<Rightarrow> Inr v)"
| "py_getitem (JList xs) k = Inl TypeError"
| "py_getitem (JStr s) k = Inl TypeError"
| "py_getitem JNull k = Inl TypeError"
| "py_getitem (JBool b) k = Inl TypeError"
| "py_getitem (JInt i) k = Inl TypeError"

text \<open>
  \<^verbatim>\<open>x.get(k, default)\<close>: only a dict has the method; the default is returned exactly when
  the key is absent (a key that is present with the value \<^verbatim>\<open>None\<close> gives \<^verbatim>\<open>None\<close>).
\<close>

fun py_get :: "json \<Rightarrow> string \<Rightarrow> json \<Rightarrow> py_error + json" where
  "py_get (JObj d) k dflt = Inr (case map_of d k of None \<Rightarrow> dflt | Some v \<Rightarrow> v)"
| "py_get (JList xs) k dflt = Inl AttributeError"
| "py_get (JStr s) k dflt = Inl AttributeError"
| "py_get JNull k dflt = Inl AttributeError"
| "py_get (JBool b) k dflt = Inl AttributeError"
| "py_get (JInt i) k dflt = Inl AttributeError"

text \<open>
  What an f-string substitutes for \<^verbatim>\<open>{v}\<close> is \<^verbatim>\<open>str(v)\<close>: a string stands for itself,
  every other value is rendered by the interpreter's built-in conversion, which the model
  takes as the parameter \<open>builtin_str\<close>.
\<close>

fun py_format :: "(json \<Rightarrow> string) \<Rightarrow> json \<Rightarrow> string" where
  "py_format builtin_str (JStr s) = s"
| "py_format builtin_str v = builtin_str v"

section \<open>\<^verbatim>\<open>json.dumps\<close> on a string\<close>

definition hex_digit :: "nat \<Rightarrow> char" where
  "hex_digit n = (if n < 10 then char_of (48 + n) else char_of (87 + n))"

text \<open>
  The encoder's default (\<^verbatim>\<open>ensure_ascii=True\<close>) keeps the characters from space to tilde,
  except the quote and the backslash, and escapes all others; a \<open>char\<close> is a code point
  below 256 here.
\<close>

definition json_escape :: "char \<Rightarrow> string" where
  "json_escape c =
     (if c = CHR 0x22 then [CHR 0x5C, CHR 0x22]
      else if c = CHR 0x5C then [CHR 0x5C, CHR 0x5C]
      else if c = CHR 0x0A then [CHR 0x5C, CHR ''n'']
      else if c = CHR 0x0D then [CHR 0x5C, CHR ''r'']
      else if c = CHR 0x09 then [CHR 0x5C, CHR ''t'']
      else if c = CHR 0x08 then [CHR 0x5C, CHR ''b'']
      else if c = CHR 0x0C then [CHR 0x5C, CHR ''f'']
      else if (32::nat) \<le> of_char c \<and> (of_char c :: nat) \<le> 126 then [c]
      else [CHR 0x5C, CHR ''u'', CHR ''0'', CHR ''0'',
            hex_digit (of_char c div 16), hex_digit (of_char c mod 16)])"

definition json_dumps_str :: "string \<Rightarrow> string" where
  "json_dumps_str s = [CHR 0x22] @ concat (map json_escape s) @ [CHR 0x22]"

section \<open>\<^verbatim>\<open>datetime.isoformat\<close>\<close>

record datetime =
  year :: nat
  month :: nat
  day :: nat
  hour :: nat
  minute :: nat
  second :: nat
  microsecond :: nat

text \<open>
  The ranges a \<^verbatim>\<open>datetime\<close> object's fields lie in: the constructor refuses anything
  else, so every reading of the clock is within them.
\<close>

definition is_leap :: "nat \<Rightarrow> bool" where
  "is_leap y \<longleftrightarrow> y mod 4 = 0 \<and> (y mod 100 \<noteq> 0 \<or> y mod 400 = 0)"

definition days_in_month :: "nat \<Rightarrow> nat \<Rightarrow> nat" where
  "days_in_month y m =
     (if m = 2 then (if is_leap y then 29 else 28)
      else if m = 4 \<or> m = 6 \<or> m = 9 \<or> m = 11 then 30
      else 31)"

definition datetime_ok :: "datetime \<Rightarrow> bool" where
  "datetime_ok d \<longleftrightarrow>
     1 \<le> year d \<and> year d \<le> 9999 \<and> 1 \<le> month d \<and> month d \<le> 12 \<and>
     1 \<le> day d \<and> day d \<le> days_in_month (year d) (month d) \<and>
     hour d < 24 \<and> minute d < 60 \<and> second d < 60 \<and> microsecond d < 1000000"

definition digit_char :: "nat \<Rightarrow> char" where
  "digit_char n = char_of (48 + n)"

fun decimal :: "nat \<Rightarrow> string" where
  "decimal n = (if n < 10 then [digit_char n] else decimal (n div 10) @ [digit_char (n mod 10)])"

text \<open>\<^verbatim>\<open>"%0wd" % n\<close>: the decimal digits, padded on the left with zeros to width \<open>w\<close>.\<close>

definition zero_pad :: "nat \<Rightarrow> nat \<Rightarrow> string" where
  "zero_pad w n = replicate (w - length (decimal n)) (CHR ''0'') @ decimal n"

text \<open>
  \<^verbatim>\<open>isoformat()\<close> of a naive datetime: \<^verbatim>\<open>YYYY-MM-DDTHH:MM:SS\<close>, followed by
  \<^verbatim>\<open>.ffffff\<close> when the microsecond field is not zero. No zone designator is written.
\<close>

definition isoformat :: "datetime \<Rightarrow> string" where
  "isoformat d =
     zero_pad 4 (year d) @ ''-'' @ zero_pad 2 (month d) @ ''-'' @ zero_pad 2 (day d) @ ''T'' @
     zero_pad 2 (hour d) @ '':'' @ zero_pad 2 (minute d) @ '':'' @ zero_pad 2 (second d) @
     (if microsecond d \<noteq> 0 then ''.'' @ zero_pad 6 (microsecond d) else [])"

text \<open>
  What the specification calls a valid ISO-8601 timestamp, written as a reader of the
  extended format for a date and time of day with an optional six-digit fraction of a
  second: the string has 19 or 26 characters, the separators are in their places, the
  fields are decimal digits and the values are in range. It returns the date and time
  the string denotes.
\<close>

definition digit_val :: "char \<Rightarrow> nat option" where
  "digit_val c =
     (if (48::nat) \<le> of_char c \<and> (of_char c :: nat) \<le> 57 then Some (of_char c - 48) else None)"

fun number_from :: "nat \<Rightarrow> string \<Rightarrow> nat option" where
  "number_from acc [] = Some acc"
| "number_from acc (c # cs) =
     (case digit_val c of None \<Rightarrow> None | Some v \<Rightarrow> number_from (10 * acc + v) cs)"

definition parse_iso8601 :: "string \<Rightarrow> datetime option" where
  "parse_iso8601 s =
     (if length s \<noteq> 19 \<and> length s \<noteq> 26 then None
      else if s ! 4 \<noteq> CHR ''-'' \<or> s ! 7 \<noteq> CHR ''-'' \<or> s ! 10 \<noteq> CHR ''T'' \<or>
              s ! 13 \<noteq> CHR '':'' \<or> s ! 16 \<noteq> CHR '':'' \<or>
              (length s = 26 \<and> s ! 19 \<noteq> CHR ''.'') then None
      else
        (case number_from 0 (take 4 s) of None \<Rightarrow> None | Some y \<Rightarrow>
        (case number_from 0 (take 2 (drop 5 s)) of None \<Rightarrow> None | Some mo \<Rightarrow>
        (case number_from 0 (take 2 (drop 8 s)) of None \<Rightarrow> None | Some dd \<Rightarrow>
        (case number_from 0 (take 2 (drop 11 s)) of None \<Rightarrow> None | Some h \<Rightarrow>
        (case number_from 0 (take 2 (drop 14 s)) of None \<Rightarrow> None | Some mi \<Rightarrow>
        (case number_from 0 (take 2 (drop 17 s)) of None \<Rightarrow> None | Some se \<Rightarrow>
        (case number_from 0 (drop 20 s) of None \<Rightarrow> None | Some us \<Rightarrow>
           (let dt = \<lparr>year = y, month = mo, day = dd, hour = h, minute = mi, second = se,
                       microsecond = us\<rparr>
            in if datetime_ok dt then Some dt else None)))))))))"

section \<open>The interpreter's \<^verbatim>\<open>str\<close> and \<^verbatim>\<open>repr\<close>\<close>

text \<open>
  \<^verbatim>\<open>repr\<close> of a string: single quotes around it, double quotes when it holds a single
  quote and no double quote; the quote in use and the backslash are escaped with a
  backslash, tab, newline and carriage return are written \<^verbatim>\<open>\t\<close>, \<^verbatim>\<open>\n\<close>, \<^verbatim>\<open>\r\<close>, and
  a code point that is not printable (below 32, 127, 128 to 160, 173) is written
  \<^verbatim>\<open>\xhh\<close> with two lower-case hexadecimal digits.
\<close>

definition repr_escape :: "char \<Rightarrow> char \<Rightarrow> string" where
  "repr_escape quote c =
     (if c = quote \<or> c = CHR 0x5C then [CHR 0x5C, c]
      else if c = CHR 0x09 then [CHR 0x5C, CHR ''t'']
      else if c = CHR 0x0A then [CHR 0x5C, CHR ''n'']
      else if c = CHR 0x0D then [CHR 0x5C, CHR ''r'']
      else if (of_char c :: nat) < 32 \<or> (of_char c :: nat) = 127 \<or>
              (128 \<le> (of_char c :: nat) \<and> (of_char c :: nat) \<le> 160) \<or>
              (of_char c :: nat) = 173
        then [CHR 0x5C, CHR ''x'', hex_digit (of_char c div 16), hex_digit (of_char c mod 16)]
      else [c])"

definition str_repr :: "string \<Rightarrow> string" where
  "str_repr s =
     (let quote = (if CHR 0x27 \<in> set s \<and> CHR 0x22 \<notin> set s then CHR 0x22 else CHR 0x27)
      in [quote] @ concat (map (repr_escape quote) s) @ [quote])"

text \<open>\<^verbatim>\<open>str\<close> of an integer: its decimal digits, after a minus sign when it is negative.\<close>

definition int_str :: "int \<Rightarrow> string" where
  "int_str i = (if i < 0 then CHR ''-'' # decimal (nat (- i)) else decimal (nat i))"

text \<open>\<^verbatim>\<open>", ".join(parts)\<close>.\<close>

fun comma_join :: "string list \<Rightarrow> string" where
  "comma_join [] = []"
| "comma_join [x] = x"
| "comma_join (x # y # ys) = x @ '', '' @ comma_join (y # ys)"

text \<open>
  \<^verbatim>\<open>repr\<close> of a decoded JSON value. A list is its elements' \<^verbatim>\<open>repr\<close> between brackets, a
  dict its entries \<^verbatim>\<open>key: value\<close> between braces, both in their own order and separated by
  a comma and a space.
\<close>

fun py_repr :: "json \<Rightarrow> string" where
  "py_repr JNull = ''None''"
| "py_repr (JBool b) = (if b then ''True'' else ''False'')"
| "py_repr (JInt i) = int_str i"
| "py_repr (JStr s) = str_repr s"
| "py_repr (JList xs) = ''['' @ comma_join (map py_repr xs) @ '']''"
| "py_repr (JObj kvs) =
     ''{'' @ comma_join (map (\<lambda>(k, v). str_repr k @ '': '' @ py_repr v) kvs) @ ''}''"

text \<open>\<^verbatim>\<open>str\<close> of a value: a string is itself, every other value is its \<^verbatim>\<open>repr\<close>.\<close>

fun py_str :: "json \<Rightarrow> string" where
  "py_str (JStr s) = s"
| "py_str JNull = py_repr JNull"
| "py_str (JBool b) = py_repr (JBool b)"
| "py_str (JInt i) = py_repr (JInt i)"
| "py_str (JList xs) = py_repr (JList xs)"
| "py_str (JObj kvs) = py_repr (JObj kvs)"

section \<open>Module state, the platform and the outside world\<close>

text \<open>
  The two module-level names read from the process environment at import time (lines
  11 and 12). \<^verbatim>\<open>os.environ[k]\<close> raises \<^verbatim>\<open>KeyError\<close> when \<open>k\<close> is not set; the first
  failing line ends the import. Lines 7 and 8 before them build the two client objects
  and send no request.
\<close>

record config =
  DYNAMODB_TABLE :: string
  SNS_TOPIC_ARN :: string

definition module_init :: "(string \<rightharpoonup> string) \<Rightarrow> py_error + config" where
  "module_init environ =
     (case environ ''DYNAMODB_TABLE'' of
        None \<Rightarrow> Inl (KeyError ''DYNAMODB_TABLE'')
      | Some t \<Rightarrow>
          (case environ ''SNS_TOPIC_ARN'' of
             None \<Rightarrow> Inl (KeyError ''SNS_TOPIC_ARN'')
           | Some a \<Rightarrow> Inr \<lparr>DYNAMODB_TABLE = t, SNS_TOPIC_ARN = a\<rparr>))"

text \<open>
  What the code cannot decide itself is a parameter: the reading the clock gives at its
  \<open>n\<close>-th read, whether a \<^verbatim>\<open>put_item\<close> or a \<^verbatim>\<open>publish\<close> request raises (and what), and
  the interpreter's \<^verbatim>\<open>str\<close> on values that are not strings.
\<close>

record platform =
  utcnow :: "nat \<Rightarrow> datetime"
  put_item_raises :: "string \<Rightarrow> (string \<times> json) list \<Rightarrow> py_error option"
  publish_raises :: "string \<Rightarrow> string \<Rightarrow> string \<Rightarrow> py_error option"
  builtin_str :: "json \<Rightarrow> string"

text \<open>
  The observable world: how often the clock has been read, every request sent to the two
  services in the order it was sent, the items the table holds and the messages the topic
  has accepted. A request that raises is in \<open>calls\<close> and changes neither \<open>stored\<close> nor
  \<open>delivered\<close>.
\<close>

datatype call =
    PutItem string "(string \<times> json) list"
  | Publish string string string

record world =
  clock_reads :: nat
  calls :: "call list"
  stored :: "(string \<times> (string \<times> json) list) list"
  delivered :: "(string \<times> string \<times> string) list"

definition put_item :: "platform \<Rightarrow> string \<Rightarrow> (string \<times> json) list \<Rightarrow> world \<Rightarrow> (py_error + unit) \<times> world" where
  "put_item p table item w =
     (let w' = w\<lparr>calls := calls w @ [PutItem table item]\<rparr>
      in case put_item_raises p table item of
           Some e \<Rightarrow> (Inl e, w')
         | None \<Rightarrow> (Inr (), w'\<lparr>stored := stored w' @ [(table, item)]\<rparr>))"

definition publish :: "platform \<Rightarrow> string \<Rightarrow> string \<Rightarrow> string \<Rightarrow> world \<Rightarrow> (py_error + unit) \<times> world" where
  "publish p topic message subject w =
     (let w' = w\<lparr>calls := calls w @ [Publish topic message subject]\<rparr>
      in case publish_raises p topic message subject of
           Some e \<Rightarrow> (Inl e, w')
         | None \<Rightarrow> (Inr (), w'\<lparr>delivered := delivered w' @ [(topic, message, subject)]\<rparr>))"

section \<open>The handler\<close>

record fields =
  image_tag :: json
  repository :: json
  pushed_by :: json

text \<open>
  Lines 21 to 28. The three assignments of a branch run in the order written, so the
  first one that raises decides the exception; \<^verbatim>\<open>event['detail']\<close> is evaluated twice.
\<close>

definition resolve_fields :: "json \<Rightarrow> py_error + fields" where
  "resolve_fields event =
     bind_result (py_in ''detail'' event) (\<lambda>has_detail.
       if has_detail then
         bind_result (py_getitem event ''detail'') (\<lambda>d1.
         bind_result (py_get d1 ''image-tag'' (JStr ''unknown-tag'')) (\<lambda>tag.
         bind_result (py_getitem event ''detail'') (\<lambda>d2.
         bind_result (py_get d2 ''repository-name'' (JStr ''unknown-repo'')) (\<lambda>repo.
         bind_result (py_get event ''account'' (JStr ''unknown-user'')) (\<lambda>who.
           Inr \<lparr>image_tag = tag, repository = repo, pushed_by = who\<rparr>)))))
       else
         bind_result (py_get event ''image_tag'' (JStr ''unknown-tag'')) (\<lambda>tag.
         bind_result (py_get event ''repository'' (JStr ''unknown-repo'')) (\<lambda>repo.
         bind_result (py_get event ''pushed_by'' (JStr ''unknown-user'')) (\<lambda>who.
           Inr \<lparr>image_tag = tag, repository = repo, pushed_by = who\<rparr>))))"

text \<open>Lines 36 to 41: the \<^verbatim>\<open>Item\<close> dict, in the order its keys are written.\<close>

definition make_item :: "fields \<Rightarrow> string \<Rightarrow> (string \<times> json) list" where
  "make_item f timestamp =
     [(''Repository'', repository f), (''ImageTag'', image_tag f),
      (''PushedBy'', pushed_by f), (''Timestamp'', JStr timestamp)]"

text \<open>Lines 45 to 51: five f-strings joined; the last line has no newline after it.\<close>

definition make_message :: "(json \<Rightarrow> string) \<Rightarrow> fields \<Rightarrow> string \<Rightarrow> string" where
  "make_message to_str f timestamp =
     ''Docker image pushed successfully!'' @ [CHR 0x0A] @
     ''Repository: '' @ py_format to_str (repository f) @ [CHR 0x0A] @
     ''Tag: '' @ py_format to_str (image_tag f) @ [CHR 0x0A] @
     ''Pushed By: '' @ py_format to_str (pushed_by f) @ [CHR 0x0A] @
     ''Timestamp: '' @ timestamp"

record response =
  statusCode :: int
  body :: string

text \<open>
  \<^verbatim>\<open>lambda_handler(event, context)\<close>; \<^verbatim>\<open>context\<close> is never used and is left out. An
  exception ends the call where it is raised and leaves the world as it then is.
\<close>

definition lambda_handler :: "config \<Rightarrow> platform \<Rightarrow> json \<Rightarrow> world \<Rightarrow> (py_error + response) \<times> world" where
  "lambda_handler cfg p event w =
     (case resolve_fields event of
        Inl e \<Rightarrow> (Inl e, w)
      | Inr f \<Rightarrow>
          (let timestamp = isoformat (utcnow p (clock_reads w));
               w1 = w\<lparr>clock_reads := Suc (clock_reads w)\<rparr>
           in case put_item p (DYNAMODB_TABLE cfg) (make_item f timestamp) w1 of
                (Inl e, w2) \<Rightarrow> (Inl e, w2)
              | (Inr u, w2) \<Rightarrow>
                  (let message = make_message (builtin_str p) f timestamp
                   in case publish p (SNS_TOPIC_ARN cfg) message ''ECR Image Push Notification'' w2 of
                        (Inl e, w3) \<Rightarrow> (Inl e, w3)
                      | (Inr u', w3) \<Rightarrow>
                          (Inr \<lparr>statusCode = 200,
                                body = json_dumps_str ''Lambda executed successfully!''\<rparr>, w3))))"

text \<open>
  A cold start imports the module and then calls the handler; when the import raises, the
  handler is never defined, so it is not called.
\<close>

definition cold_start :: "(string \<rightharpoonup> string) \<Rightarrow> platform \<Rightarrow> json \<Rightarrow> world \<Rightarrow> (py_error + response) \<times> world" where
  "cold_start environ p event w =
     (case module_init environ of
        Inl e \<Rightarrow> (Inl e, w)
      | Inr cfg \<Rightarrow> lambda_handler cfg p event w)"

section \<open>The normalisation rule as the specification words it\<close>

text \<open>
  The specification's two event shapes, written from its text and compared with
  \<open>resolve_fields\<close> below. A field is the value under its key, or its sentinel when the
  key is absent. Shape A reads the tag and the repository from the \<^verbatim>\<open>detail\<close> map and the
  actor from the top-level \<^verbatim>\<open>account\<close>; shape B reads all three from the top level.
\<close>

definition field_or :: "(string \<times> json) list \<Rightarrow> string \<Rightarrow> string \<Rightarrow> json" where
  "field_or m k sentinel = (case map_of m k of None \<Rightarrow> JStr sentinel | Some v \<Rightarrow> v)"

definition shape_A :: "(string \<times> json) list \<Rightarrow> (string \<times> json) list \<Rightarrow> fields" where
  "shape_A ev detail =
     \<lparr>image_tag = field_or detail ''image-tag'' ''unknown-tag'',
      repository = field_or detail ''repository-name'' ''unknown-repo'',
      pushed_by = field_or ev ''account'' ''unknown-user''\<rparr>"

definition shape_B :: "(string \<times> json) list \<Rightarrow> fields" where
  "shape_B ev =
     \<lparr>image_tag = field_or ev ''image_tag'' ''unknown-tag'',
      repository = field_or ev ''repository'' ''unknown-repo'',
      pushed_by = field_or ev ''pushed_by'' ''unknown-user''\<rparr>"

section \<open>Concrete inputs\<close>

text \<open>A configuration, a clock reading, three platforms and the empty world, for running
  the handler on concrete events.\<close>

definition example_config :: config where
  "example_config = \<lparr>DYNAMODB_TABLE = ''image-log'', SNS_TOPIC_ARN = ''arn:aws:sns:eu-west-1:42:pushes''\<rparr>"

definition example_reading :: datetime where
  "example_reading =
     \<lparr>year = 2024, month = 3, day = 9, hour = 7, minute = 5, second = 0, microsecond = 1234\<rparr>"

definition reliable_platform :: platform where
  "reliable_platform =
     \<lparr>utcnow = (\<lambda>n. example_reading),
      put_item_raises = (\<lambda>table item. None),
      publish_raises = (\<lambda>topic message subject. None),
      builtin_str = (\<lambda>v. if v = JNull then ''None'' else ''<value>'')\<rparr>"

definition store_down_platform :: platform where
  "store_down_platform =
     reliable_platform\<lparr>put_item_raises := (\<lambda>table item. Some (ClientError ''ResourceNotFoundException''))\<rparr>"

definition topic_down_platform :: platform where
  "topic_down_platform =
     reliable_platform\<lparr>publish_raises := (\<lambda>topic message subject. Some (ClientError ''NotFound''))\<rparr>"

text \<open>The reliable platform with the interpreter's own \<^verbatim>\<open>str\<close>.\<close>

definition cpython_platform :: platform where
  "cpython_platform = reliable_platform\<lparr>builtin_str := py_str\<rparr>"

definition empty_world :: world where
  "empty_world = \<lparr>clock_reads = 0, calls = [], stored = [], delivered = []\<rparr>"

text \<open>The four scenarios of the specification's section 8.\<close>

definition scenario1 :: json where
  "scenario1 =
     JObj [(''detail'', JObj [(''image-tag'', JStr ''v1.2''), (''repository-name'', JStr ''myapp'')]),
           (''account'', JStr ''123456789012'')]"

definition scenario2 :: json where
  "scenario2 =
     JObj [(''image_tag'', JStr ''latest''), (''repository'', JStr ''svc''),
           (''pushed_by'', JStr ''ci-bot'')]"

definition scenario3 :: json where
  "scenario3 = JObj []"

definition scenario4 :: json where
  "scenario4 = JObj [(''detail'', JObj []), (''account'', JStr ''acct1'')]"

text \<open>A webhook event whose fields are not strings.\<close>

definition untyped_event :: json where
  "untyped_event =
     JObj [(''image_tag'', JInt 7),
           (''repository'', JList [JStr ''a'', JObj [(''k'', JBool True)]]),
           (''pushed_by'', JNull)]"

section \<open>Decimal fields: what is written is what is read\<close>

declare decimal.simps [simp del]

lemma digit_val_digit_char: "n < 10 \<Longrightarrow> digit_val (digit_char n) = Some n"
  by (simp add: digit_val_def digit_char_def)

lemma number_from_append:
  "number_from acc (xs @ ys) =
     (case number_from acc xs of None \<Rightarrow> None | Some a \<Rightarrow> number_from a ys)"
  by (induction xs arbitrary: acc) (auto split: option.splits)

lemma number_from_decimal:
  "number_from acc (decimal n) = Some (acc * 10 ^ length (decimal n) + n)"
proof (induction n arbitrary: acc rule: decimal.induct)
  case (1 n)
  show ?case
  proof (cases "n < 10")
    case True
    then show ?thesis
      by (subst (1 2) decimal.simps) (simp add: digit_val_digit_char)
  next
    case False
    have m: "n mod 10 < 10" by simp
    from False 1 [of acc] show ?thesis
      by (subst (1 2) decimal.simps)
         (simp add: number_from_append digit_val_digit_char [OF m] algebra_simps)
  qed
qed

lemma number_from_zeros: "number_from 0 (replicate k (CHR ''0'')) = Some 0"
  by (induction k) (simp_all add: digit_val_def)

lemma number_from_zero_pad: "number_from 0 (zero_pad w n) = Some n"
  by (simp add: zero_pad_def number_from_append number_from_zeros number_from_decimal)

lemma length_decimal: "0 < w \<Longrightarrow> n < 10 ^ w \<Longrightarrow> length (decimal n) \<le> w"
proof (induction n arbitrary: w rule: decimal.induct)
  case (1 n)
  show ?case
  proof (cases "n < 10")
    case True
    with "1.prems" show ?thesis by (subst decimal.simps) simp
  next
    case False
    from "1.prems" obtain v where v: "w = Suc v"
      by (cases w) auto
    with False "1.prems" have "0 < v"
      by (cases v) auto
    note w = v this
    from "1.prems" w have "n div 10 < 10 ^ v"
      by (simp add: less_mult_imp_div_less mult.commute)
    with False w "1.IH" [of v] show ?thesis
      by (subst decimal.simps) simp
  qed
qed

lemma length_zero_pad: "0 < w \<Longrightarrow> n < 10 ^ w \<Longrightarrow> length (zero_pad w n) = w"
  using length_decimal [of w n] by (simp add: zero_pad_def)

lemma days_in_month_le: "days_in_month y m \<le> 31"
  by (simp add: days_in_month_def)

text \<open>A string of the right shape is read field by field.\<close>

lemma parse_iso8601_shape:
  assumes "length a = 4" "length b = 2" "length c = 2" "length e = 2" "length f = 2"
    "length g = 2" "u = [] \<or> length u = 6"
    "number_from 0 a = Some y" "number_from 0 b = Some mo" "number_from 0 c = Some dd"
    "number_from 0 e = Some h" "number_from 0 f = Some mi" "number_from 0 g = Some se"
    "number_from 0 u = Some us"
    "datetime_ok \<lparr>year = y, month = mo, day = dd, hour = h, minute = mi, second = se,
                    microsecond = us\<rparr>"
  shows "parse_iso8601 (a @ ''-'' @ b @ ''-'' @ c @ ''T'' @ e @ '':'' @ f @ '':'' @ g @
           (if u = [] then [] else ''.'' @ u)) =
         Some \<lparr>year = y, month = mo, day = dd, hour = h, minute = mi, second = se,
               microsecond = us\<rparr>"
  using assms by (auto simp: parse_iso8601_def nth_append)

lemma parse_isoformat:
  assumes "datetime_ok d"
  shows "parse_iso8601 (isoformat d) = Some d"
proof -
  let ?u = "if microsecond d \<noteq> 0 then zero_pad 6 (microsecond d) else []"
  from assms have len:
    "length (zero_pad 4 (year d)) = 4" "length (zero_pad 2 (month d)) = 2"
    "length (zero_pad 2 (day d)) = 2" "length (zero_pad 2 (hour d)) = 2"
    "length (zero_pad 2 (minute d)) = 2" "length (zero_pad 2 (second d)) = 2"
    "length (zero_pad 6 (microsecond d)) = 6"
    using days_in_month_le [of "year d" "month d"]
    by (simp_all add: datetime_ok_def length_zero_pad)
  then have u: "?u = [] \<or> length ?u = 6" by simp
  have us: "number_from 0 ?u = Some (microsecond d)"
    by (simp add: number_from_zero_pad)
  from len have ne: "zero_pad 6 (microsecond d) \<noteq> []" by auto
  have iso: "isoformat d =
      zero_pad 4 (year d) @ ''-'' @ zero_pad 2 (month d) @ ''-'' @ zero_pad 2 (day d) @ ''T'' @
      zero_pad 2 (hour d) @ '':'' @ zero_pad 2 (minute d) @ '':'' @ zero_pad 2 (second d) @
      (if ?u = [] then [] else ''.'' @ ?u)"
    using ne by (simp add: isoformat_def)
  from assms have ok: "datetime_ok \<lparr>year = year d, month = month d, day = day d, hour = hour d,
      minute = minute d, second = second d, microsecond = microsecond d\<rparr>"
    by (simp add: datetime_ok_def)
  show ?thesis
    unfolding iso
    by (subst parse_iso8601_shape [OF len(1-6) u number_from_zero_pad number_from_zero_pad
          number_from_zero_pad number_from_zero_pad number_from_zero_pad number_from_zero_pad
          us ok]) simp
qed

lemma isoformat_example_reading: "isoformat example_reading = ''2024-03-09T07:05:00.001234''"
  by code_simp

section \<open>The handler, step by step\<close>

lemma resolve_fields_shape_B:
  "map_of ev ''detail'' = None \<Longrightarrow> resolve_fields (JObj ev) = Inr (shape_B ev)"
  by (simp add: resolve_fields_def bind_result_def shape_B_def field_or_def)

lemma resolve_fields_shape_A:
  "map_of ev ''detail'' = Some (JObj d) \<Longrightarrow> resolve_fields (JObj ev) = Inr (shape_A ev d)"
  by (simp add: resolve_fields_def bind_result_def shape_A_def field_or_def)

lemma resolve_fields_detail_not_map:
  "map_of ev ''detail'' = Some x \<Longrightarrow> \<forall>d. x \<noteq> JObj d \<Longrightarrow>
   resolve_fields (JObj ev) = Inl AttributeError"
  by (cases x) (simp_all add: resolve_fields_def bind_result_def)

lemma resolve_fields_not_map:
  "resolve_fields JNull = Inl TypeError"
  "resolve_fields (JBool b) = Inl TypeError"
  "resolve_fields (JInt i) = Inl TypeError"
  "resolve_fields (JStr s) = Inl (if str_contains s ''detail'' then TypeError else AttributeError)"
  "resolve_fields (JList xs) =
     Inl (if List.member xs (JStr ''detail'') then TypeError else AttributeError)"
  by (simp_all add: resolve_fields_def bind_result_def)

lemma lambda_handler_raises_early:
  "resolve_fields event = Inl e \<Longrightarrow> lambda_handler cfg p event w = (Inl e, w)"
  by (simp add: lambda_handler_def)

lemma lambda_handler_run:
  assumes "resolve_fields event = Inr f"
  shows "lambda_handler cfg p event w =
     (let ts = isoformat (utcnow p (clock_reads w));
          item = make_item f ts;
          msg = make_message (builtin_str p) f ts;
          subject = ''ECR Image Push Notification''
      in case put_item_raises p (DYNAMODB_TABLE cfg) item of
           Some e \<Rightarrow>
             (Inl e, w\<lparr>clock_reads := Suc (clock_reads w),
                       calls := calls w @ [PutItem (DYNAMODB_TABLE cfg) item]\<rparr>)
         | None \<Rightarrow>
             (case publish_raises p (SNS_TOPIC_ARN cfg) msg subject of
                Some e \<Rightarrow>
                  (Inl e, w\<lparr>clock_reads := Suc (clock_reads w),
                            calls := calls w @ [PutItem (DYNAMODB_TABLE cfg) item,
                                                Publish (SNS_TOPIC_ARN cfg) msg subject],
                            stored := stored w @ [(DYNAMODB_TABLE cfg, item)]\<rparr>)
              | None \<Rightarrow>
                  (Inr \<lparr>statusCode = 200, body = json_dumps_str ''Lambda executed successfully!''\<rparr>,
                   w\<lparr>clock_reads := Suc (clock_reads w),
                     calls := calls w @ [PutItem (DYNAMODB_TABLE cfg) item,
                                         Publish (SNS_TOPIC_ARN cfg) msg subject],
                     stored := stored w @ [(DYNAMODB_TABLE cfg, item)],
                     delivered := delivered w @ [(SNS_TOPIC_ARN cfg, msg, subject)]\<rparr>)))"
  using assms
  by (simp add: lambda_handler_def put_item_def publish_def Let_def split: option.splits)

section \<open>The claims\<close>

text \<open>
  C1. The three fields are resolved by a two-way dispatch on the presence of a top-level
  \<^verbatim>\<open>detail\<close> key of the event map. When the key is present the tag and the repository are
  read from the \<^verbatim>\<open>detail\<close> map and the actor from the top-level \<^verbatim>\<open>account\<close> (shape A);
  when it is absent all three are read from the top-level \<^verbatim>\<open>image_tag\<close>,
  \<^verbatim>\<open>repository\<close> and \<^verbatim>\<open>pushed_by\<close> (shape B). The presence of the key alone selects the
  branch: a \<^verbatim>\<open>detail\<close> that is not a map makes the read on it raise and never falls back
  to shape B, and adding or changing a top-level \<^verbatim>\<open>repository\<close>, \<^verbatim>\<open>image_tag\<close> or
  \<^verbatim>\<open>pushed_by\<close> entry of an event that has a \<^verbatim>\<open>detail\<close> key changes nothing. An
  event that is not a map has no keys to read: resolution raises on it.
\<close>

theorem shape_dispatch:
  "resolve_fields (JObj ev) =
     (case map_of ev ''detail'' of
        None \<Rightarrow> Inr (shape_B ev)
      | Some (JObj d) \<Rightarrow> Inr (shape_A ev d)
      | Some other \<Rightarrow> Inl AttributeError)
   \<and> (map_of ev ''detail'' \<noteq> None \<longrightarrow> k \<in> {''repository'', ''image_tag'', ''pushed_by''} \<longrightarrow>
        resolve_fields (JObj ((k, v) # ev)) = resolve_fields (JObj ev))
   \<and> isl (resolve_fields JNull) \<and> isl (resolve_fields (JBool b)) \<and> isl (resolve_fields (JInt i))
   \<and> isl (resolve_fields (JStr s)) \<and> isl (resolve_fields (JList xs))"
proof (cases "map_of ev ''detail''")
  case None
  then show ?thesis by (simp add: resolve_fields_shape_B resolve_fields_not_map)
next
  case (Some x)
  show ?thesis
  proof (cases "\<exists>d. x = JObj d")
    case True
    then obtain d where x: "x = JObj d" ..
    with Some have "k \<in> {''repository'', ''image_tag'', ''pushed_by''} \<Longrightarrow>
        map_of ((k, v) # ev) ''detail'' = Some (JObj d)"
      by auto
    then have "k \<in> {''repository'', ''image_tag'', ''pushed_by''} \<Longrightarrow>
        resolve_fields (JObj ((k, v) # ev)) = Inr (shape_A ((k, v) # ev) d)"
      by (rule resolve_fields_shape_A)
    moreover have "k \<in> {''repository'', ''image_tag'', ''pushed_by''} \<Longrightarrow>
        shape_A ((k, v) # ev) d = shape_A ev d"
      by (auto simp: shape_A_def field_or_def)
    ultimately show ?thesis
      using Some x by (simp add: resolve_fields_shape_A resolve_fields_not_map)
  next
    case False
    with Some have a: "resolve_fields (JObj ev) = Inl AttributeError"
      by (simp add: resolve_fields_detail_not_map)
    from Some have "k \<in> {''repository'', ''image_tag'', ''pushed_by''} \<Longrightarrow>
        map_of ((k, v) # ev) ''detail'' = Some x"
      by auto
    with False have "k \<in> {''repository'', ''image_tag'', ''pushed_by''} \<Longrightarrow>
        resolve_fields (JObj ((k, v) # ev)) = Inl AttributeError"
      by (simp add: resolve_fields_detail_not_map)
    with a Some False show ?thesis
      by (cases x) (auto simp: resolve_fields_not_map)
  qed
qed

theorem shape_dispatch_witness:
  "map_of [(''detail'', JObj [(''image-tag'', JStr ''v1.2'')]), (''account'', JStr ''42'')] ''detail'' \<noteq> None
   \<and> ''repository'' \<in> {''repository'', ''image_tag'', ''pushed_by''}
   \<and> resolve_fields (JObj [(''repository'', JStr ''decoy''),
         (''detail'', JObj [(''image-tag'', JStr ''v1.2'')]), (''account'', JStr ''42'')]) =
       Inr \<lparr>image_tag = JStr ''v1.2'', repository = JStr ''unknown-repo'', pushed_by = JStr ''42''\<rparr>"
  using shape_dispatch [of "[(''detail'', JObj [(''image-tag'', JStr ''v1.2'')]), (''account'', JStr ''42'')]"
      "''repository''" "JStr ''decoy''"]
  by (simp add: shape_A_def field_or_def)

text \<open>
  C2 as stated fails: an event map whose \<^verbatim>\<open>detail\<close> entry is \<^verbatim>\<open>null\<close> selects shape A,
  the \<^verbatim>\<open>.get\<close> on \<^verbatim>\<open>None\<close> raises \<^verbatim>\<open>AttributeError\<close>, and the invocation ends with
  no record and no notification.
\<close>

theorem detail_not_a_map_counterexample:
  "lambda_handler example_config reliable_platform (JObj [(''detail'', JNull)]) empty_world =
     (Inl AttributeError, empty_world)"
  by (simp add: lambda_handler_def resolve_fields_def bind_result_def)

text \<open>
  C2, amended. For every event that is a map whose \<^verbatim>\<open>detail\<close> entry, when present, is
  itself a map, field resolution does not raise: each field whose expected key is absent is
  the sentinel \<^verbatim>\<open>unknown-tag\<close>, \<^verbatim>\<open>unknown-repo\<close> or \<^verbatim>\<open>unknown-user\<close>; the handler
  goes on to send the record to the store, then, unless that call raises, the notification
  to the topic, and returns when neither call raises.
\<close>

theorem resolution_succeeds_on_maps:
  assumes "map_of ev ''detail'' = None \<or> (\<exists>d. map_of ev ''detail'' = Some (JObj d))"
  shows "\<exists>f. resolve_fields (JObj ev) = Inr f
     \<and> (map_of ev ''detail'' = None \<longrightarrow>
          (map_of ev ''image_tag'' = None \<longrightarrow> image_tag f = JStr ''unknown-tag'') \<and>
          (map_of ev ''repository'' = None \<longrightarrow> repository f = JStr ''unknown-repo'') \<and>
          (map_of ev ''pushed_by'' = None \<longrightarrow> pushed_by f = JStr ''unknown-user''))
     \<and> (\<forall>d. map_of ev ''detail'' = Some (JObj d) \<longrightarrow>
          (map_of d ''image-tag'' = None \<longrightarrow> image_tag f = JStr ''unknown-tag'') \<and>
          (map_of d ''repository-name'' = None \<longrightarrow> repository f = JStr ''unknown-repo'') \<and>
          (map_of ev ''account'' = None \<longrightarrow> pushed_by f = JStr ''unknown-user''))
     \<and> (let ts = isoformat (utcnow p (clock_reads w));
             item = make_item f ts;
             msg = make_message (builtin_str p) f ts;
             R = lambda_handler cfg p (JObj ev) w
         in (\<exists>rest. calls (snd R) = calls w @ PutItem (DYNAMODB_TABLE cfg) item # rest)
          \<and> (put_item_raises p (DYNAMODB_TABLE cfg) item = None \<longrightarrow>
               calls (snd R) = calls w @ [PutItem (DYNAMODB_TABLE cfg) item,
                 Publish (SNS_TOPIC_ARN cfg) msg ''ECR Image Push Notification''])
          \<and> (put_item_raises p (DYNAMODB_TABLE cfg) item = None \<longrightarrow>
             publish_raises p (SNS_TOPIC_ARN cfg) msg ''ECR Image Push Notification'' = None \<longrightarrow>
               (\<exists>r. fst R = Inr r)))"
proof -
  from assms obtain f where f: "resolve_fields (JObj ev) = Inr f"
    and b: "map_of ev ''detail'' = None \<Longrightarrow> f = shape_B ev"
    and a: "\<And>d. map_of ev ''detail'' = Some (JObj d) \<Longrightarrow> f = shape_A ev d"
    by (auto simp: resolve_fields_shape_A resolve_fields_shape_B)
  have "map_of ev ''detail'' = None \<longrightarrow>
          (map_of ev ''image_tag'' = None \<longrightarrow> image_tag f = JStr ''unknown-tag'') \<and>
          (map_of ev ''repository'' = None \<longrightarrow> repository f = JStr ''unknown-repo'') \<and>
          (map_of ev ''pushed_by'' = None \<longrightarrow> pushed_by f = JStr ''unknown-user'')"
    using b by (simp add: shape_B_def field_or_def)
  moreover have "\<forall>d. map_of ev ''detail'' = Some (JObj d) \<longrightarrow>
          (map_of d ''image-tag'' = None \<longrightarrow> image_tag f = JStr ''unknown-tag'') \<and>
          (map_of d ''repository-name'' = None \<longrightarrow> repository f = JStr ''unknown-repo'') \<and>
          (map_of ev ''account'' = None \<longrightarrow> pushed_by f = JStr ''unknown-user'')"
    using a by (simp add: shape_A_def field_or_def)
  moreover have "let ts = isoformat (utcnow p (clock_reads w));
             item = make_item f ts;
             msg = make_message (builtin_str p) f ts;
             R = lambda_handler cfg p (JObj ev) w
         in (\<exists>rest. calls (snd R) = calls w @ PutItem (DYNAMODB_TABLE cfg) item # rest)
          \<and> (put_item_raises p (DYNAMODB_TABLE cfg) item = None \<longrightarrow>
               calls (snd R) = calls w @ [PutItem (DYNAMODB_TABLE cfg) item,
                 Publish (SNS_TOPIC_ARN cfg) msg ''ECR Image Push Notification''])
          \<and> (put_item_raises p (DYNAMODB_TABLE cfg) item = None \<longrightarrow>
             publish_raises p (SNS_TOPIC_ARN cfg) msg ''ECR Image Push Notification'' = None \<longrightarrow>
               (\<exists>r. fst R = Inr r))"
    by (simp add: lambda_handler_run [OF f] Let_def split: option.splits)
  ultimately show ?thesis using f by - (rule exI [of _ f], intro conjI, assumption+)
qed

theorem resolution_succeeds_on_maps_witness:
  "(map_of [(''detail'', JObj []), (''account'', JStr ''acct1'')] ''detail'' = None \<or>
    (\<exists>d. map_of [(''detail'', JObj []), (''account'', JStr ''acct1'')] ''detail'' = Some (JObj d)))
   \<and> (\<exists>f. resolve_fields scenario4 = Inr f \<and> image_tag f = JStr ''unknown-tag'' \<and>
        repository f = JStr ''unknown-repo'' \<and>
        (\<exists>r. fst (lambda_handler example_config reliable_platform scenario4 empty_world) = Inr r))"
  using resolution_succeeds_on_maps [of "[(''detail'', JObj []), (''account'', JStr ''acct1'')]"
      reliable_platform empty_world example_config]
  by (auto simp: scenario4_def Let_def reliable_platform_def)

text \<open>
  C3 as stated fails: \<^verbatim>\<open>.get(key, default)\<close> substitutes the default only for an absent key,
  so the event \<^verbatim>\<open>{"pushed_by": null}\<close> is persisted with a null \<^verbatim>\<open>PushedBy\<close> attribute.
\<close>

theorem null_attribute_counterexample:
  "stored (snd (lambda_handler example_config reliable_platform
       (JObj [(''pushed_by'', JNull)]) empty_world)) =
     [(''image-log'',
       [(''Repository'', JStr ''unknown-repo''), (''ImageTag'', JStr ''unknown-tag''),
        (''PushedBy'', JNull),
        (''Timestamp'', JStr ''2024-03-09T07:05:00.001234'')])]"
proof -
  have "resolve_fields (JObj [(''pushed_by'', JNull)]) =
      Inr \<lparr>image_tag = JStr ''unknown-tag'', repository = JStr ''unknown-repo'', pushed_by = JNull\<rparr>"
    by (simp add: resolve_fields_shape_B shape_B_def field_or_def)
  then show ?thesis
    by (simp add: lambda_handler_run Let_def reliable_platform_def example_config_def
        empty_world_def make_item_def isoformat_example_reading)
qed

text \<open>
  C3, amended. For every event on which field resolution succeeds and whose persist call
  does not raise, exactly one record is added to the store, with the four attributes
  \<^verbatim>\<open>Repository\<close>, \<^verbatim>\<open>ImageTag\<close>, \<^verbatim>\<open>PushedBy\<close> and \<^verbatim>\<open>Timestamp\<close>, none missing;
  \<^verbatim>\<open>Timestamp\<close> is a string, and each of the other three is the field of shape A or of
  shape B: the sentinel when its source key is absent, the source value unchanged when the
  key is present, hence null only when the event carries an explicit null under that key.
\<close>

theorem persisted_record_fields:
  assumes "resolve_fields (JObj ev) = Inr f"
    and "put_item_raises p (DYNAMODB_TABLE cfg)
           (make_item f (isoformat (utcnow p (clock_reads w)))) = None"
  shows "stored (snd (lambda_handler cfg p (JObj ev) w)) =
           stored w @ [(DYNAMODB_TABLE cfg,
             [(''Repository'', repository f), (''ImageTag'', image_tag f),
              (''PushedBy'', pushed_by f),
              (''Timestamp'', JStr (isoformat (utcnow p (clock_reads w))))])]
       \<and> (map_of ev ''detail'' = None \<and> f = shape_B ev \<or>
          (\<exists>d. map_of ev ''detail'' = Some (JObj d) \<and> f = shape_A ev d))
       \<and> (\<forall>m k s. map_of m k = None \<longrightarrow> field_or m k s = JStr s)
       \<and> (\<forall>m k s v. map_of m k = Some v \<longrightarrow> field_or m k s = v)
       \<and> (\<forall>m k s. field_or m k s = JNull \<longrightarrow> map_of m k = Some JNull)"
proof -
  have "stored (snd (lambda_handler cfg p (JObj ev) w)) =
           stored w @ [(DYNAMODB_TABLE cfg,
             [(''Repository'', repository f), (''ImageTag'', image_tag f),
              (''PushedBy'', pushed_by f),
              (''Timestamp'', JStr (isoformat (utcnow p (clock_reads w))))])]"
    using assms(2)
    by (simp add: lambda_handler_run [OF assms(1)] Let_def make_item_def split: option.splits)
  moreover have "map_of ev ''detail'' = None \<and> f = shape_B ev \<or>
          (\<exists>d. map_of ev ''detail'' = Some (JObj d) \<and> f = shape_A ev d)"
  proof (cases "map_of ev ''detail''")
    case None
    with assms(1) show ?thesis by (simp add: resolve_fields_shape_B)
  next
    case (Some x)
    show ?thesis
    proof (cases "\<exists>d. x = JObj d")
      case True
      with Some assms(1) show ?thesis by (auto simp: resolve_fields_shape_A)
    next
      case False
      with Some assms(1) show ?thesis by (simp add: resolve_fields_detail_not_map)
    qed
  qed
  moreover have "\<forall>m k s. map_of m k = None \<longrightarrow> field_or m k s = JStr s"
    by (simp add: field_or_def)
  moreover have "\<forall>m k s v. map_of m k = Some v \<longrightarrow> field_or m k s = v"
    by (simp add: field_or_def)
  moreover have "\<forall>m k s. field_or m k s = JNull \<longrightarrow> map_of m k = Some JNull"
    by (auto simp: field_or_def split: option.splits)
  ultimately show ?thesis by - (intro conjI, assumption+)
qed

theorem persisted_record_fields_witness:
  "resolve_fields scenario3 = Inr (shape_B [])
   \<and> put_item_raises reliable_platform (DYNAMODB_TABLE example_config)
       (make_item (shape_B []) (isoformat (utcnow reliable_platform (clock_reads empty_world)))) = None
   \<and> stored (snd (lambda_handler example_config reliable_platform scenario3 empty_world)) =
       [(''image-log'',
         [(''Repository'', JStr ''unknown-repo''), (''ImageTag'', JStr ''unknown-tag''),
          (''PushedBy'', JStr ''unknown-user''),
          (''Timestamp'', JStr ''2024-03-09T07:05:00.001234'')])]"
proof -
  have r: "resolve_fields (JObj []) = Inr (shape_B [])"
    by (simp add: resolve_fields_shape_B)
  have q: "put_item_raises reliable_platform (DYNAMODB_TABLE example_config)
       (make_item (shape_B []) (isoformat (utcnow reliable_platform (clock_reads empty_world)))) = None"
    by (simp add: reliable_platform_def)
  from persisted_record_fields [OF r q] r q show ?thesis
    by (simp add: scenario3_def shape_B_def field_or_def reliable_platform_def
        example_config_def empty_world_def isoformat_example_reading)
qed

text \<open>
  The decimal digits of a number start with a zero only for zero itself; a field that is
  not a string, and the event that has three of them.
\<close>

lemma py_format_py_str: "py_format py_str v = py_str v"
  by (cases v) simp_all

lemma decimal_not_empty: "decimal n \<noteq> []"
  by (subst decimal.simps) simp

lemma decimal_0: "decimal 0 = ''0''"
  by code_simp

lemma decimal_zero_only: "decimal n = ''0'' \<Longrightarrow> n = 0"
  using number_from_decimal [of 0 n] by (simp add: digit_val_def)

lemma digit_char_not_zero: "0 < n \<Longrightarrow> n < 10 \<Longrightarrow> digit_char n \<noteq> CHR ''0''"
proof
  assume n: "0 < n" "n < 10" and "digit_char n = CHR ''0''"
  then have "digit_val (digit_char n) = digit_val (CHR ''0'')" by simp
  with n show False by (simp add: digit_val_digit_char) (simp add: digit_val_def)
qed

lemma decimal_no_leading_zero: "hd (decimal n) \<noteq> CHR ''0'' \<or> decimal n = ''0''"
proof (induction n rule: decimal.induct)
  case (1 n)
  show ?case
  proof (cases "n < 10")
    case True
    show ?thesis
    proof (cases "n = 0")
      case True
      then show ?thesis by (simp add: decimal_0)
    next
      case False
      with True digit_char_not_zero [of n] show ?thesis
        by (subst decimal.simps) simp
    qed
  next
    case False
    then have "n div 10 \<noteq> 0" by simp
    with decimal_zero_only [of "n div 10"] have "decimal (n div 10) \<noteq> ''0''" by blast
    with False "1.IH" have "hd (decimal (n div 10)) \<noteq> CHR ''0''" by simp
    with False decimal_not_empty [of "n div 10"] show ?thesis
      by (subst decimal.simps) simp
  qed
qed

lemma resolve_fields_untyped_event:
  "resolve_fields untyped_event =
     Inr \<lparr>image_tag = JInt 7,
          repository = JList [JStr ''a'', JObj [(''k'', JBool True)]],
          pushed_by = JNull\<rparr>"
  by (simp add: untyped_event_def resolve_fields_shape_B shape_B_def field_or_def)

lemma py_str_untyped_event:
  "py_str (repository \<lparr>image_tag = JInt 7,
      repository = JList [JStr ''a'', JObj [(''k'', JBool True)]], pushed_by = JNull\<rparr>) =
     ''['a', {'k': True}]''"
  "py_str (image_tag \<lparr>image_tag = JInt 7,
      repository = JList [JStr ''a'', JObj [(''k'', JBool True)]], pushed_by = JNull\<rparr>) = ''7''"
  "py_str (pushed_by \<lparr>image_tag = JInt 7,
      repository = JList [JStr ''a'', JObj [(''k'', JBool True)]], pushed_by = JNull\<rparr>) = ''None''"
  by code_simp+

text \<open>
  C4. Whenever the handler publishes, on a platform whose \<^verbatim>\<open>str\<close> is the interpreter's,
  the message is byte for byte the five-line template with the three resolved fields and
  the timestamp substituted, the last line without a newline after it, and the subject is
  the literal \<^verbatim>\<open>ECR Image Push Notification\<close>. What is substituted for a field is fixed
  for every value: a string is substituted as it is, \<^verbatim>\<open>None\<close>, \<^verbatim>\<open>True\<close> and
  \<^verbatim>\<open>False\<close> are written so, an integer is written with its decimal digits, which read
  back as the integer and have no leading zero, after a minus sign when it is negative,
  and a list or a dict is written the way \<^verbatim>\<open>repr\<close> writes it.
\<close>

theorem notification_text:
  assumes "resolve_fields event = Inr f"
    and "put_item_raises p (DYNAMODB_TABLE cfg)
           (make_item f (isoformat (utcnow p (clock_reads w)))) = None"
    and "builtin_str p = py_str"
  shows "(\<exists>item. calls (snd (lambda_handler cfg p event w)) = calls w @
           [PutItem (DYNAMODB_TABLE cfg) item,
            Publish (SNS_TOPIC_ARN cfg)
              (''Docker image pushed successfully!\<newline>Repository: '' @
               py_str (repository f) @ ''\<newline>Tag: '' @
               py_str (image_tag f) @ ''\<newline>Pushed By: '' @
               py_str (pushed_by f) @ ''\<newline>Timestamp: '' @
               isoformat (utcnow p (clock_reads w)))
              ''ECR Image Push Notification''])
     \<and> (\<forall>s. py_str (JStr s) = s)
     \<and> py_str JNull = ''None'' \<and> py_str (JBool True) = ''True'' \<and> py_str (JBool False) = ''False''
     \<and> (\<forall>n. number_from 0 (py_str (JInt (int n))) = Some n
            \<and> py_str (JInt (int n)) \<noteq> []
            \<and> (hd (py_str (JInt (int n))) \<noteq> CHR ''0'' \<or> py_str (JInt (int n)) = ''0'')
            \<and> py_str (JInt (- int (Suc n))) = CHR ''-'' # py_str (JInt (int (Suc n))))
     \<and> (\<forall>xs. py_str (JList xs) = ''['' @ comma_join (map py_repr xs) @ '']'')
     \<and> (\<forall>kvs. py_str (JObj kvs) =
            ''{'' @ comma_join (map (\<lambda>(k, v). py_repr (JStr k) @ '': '' @ py_repr v) kvs) @ ''}'')
     \<and> (\<forall>v. py_repr v = (case v of JStr s \<Rightarrow> str_repr s | other \<Rightarrow> py_str other))
     \<and> (\<forall>a b c. comma_join [] = [] \<and> comma_join [a] = a \<and>
            comma_join (a # b # c) = a @ '', '' @ comma_join (b # c))"
proof -
  have "\<exists>item. calls (snd (lambda_handler cfg p event w)) = calls w @
           [PutItem (DYNAMODB_TABLE cfg) item,
            Publish (SNS_TOPIC_ARN cfg)
              (''Docker image pushed successfully!\<newline>Repository: '' @
               py_str (repository f) @ ''\<newline>Tag: '' @
               py_str (image_tag f) @ ''\<newline>Pushed By: '' @
               py_str (pushed_by f) @ ''\<newline>Timestamp: '' @
               isoformat (utcnow p (clock_reads w)))
              ''ECR Image Push Notification'']"
    using assms(2)
    by (simp add: lambda_handler_run [OF assms(1)] Let_def make_message_def assms(3)
        py_format_py_str split: option.splits)
  moreover have "\<forall>s. py_str (JStr s) = s" by simp
  moreover have "py_str JNull = ''None''" "py_str (JBool True) = ''True''"
    "py_str (JBool False) = ''False''"
    by simp_all
  moreover have "\<forall>n. number_from 0 (py_str (JInt (int n))) = Some n
            \<and> py_str (JInt (int n)) \<noteq> []
            \<and> (hd (py_str (JInt (int n))) \<noteq> CHR ''0'' \<or> py_str (JInt (int n)) = ''0'')
            \<and> py_str (JInt (- int (Suc n))) = CHR ''-'' # py_str (JInt (int (Suc n)))"
  proof
    fix n
    have "number_from 0 (py_str (JInt (int n))) = Some n"
      by (simp add: int_str_def number_from_decimal)
    moreover have "py_str (JInt (int n)) \<noteq> []"
      by (simp add: int_str_def decimal_not_empty)
    moreover have "hd (py_str (JInt (int n))) \<noteq> CHR ''0'' \<or> py_str (JInt (int n)) = ''0''"
      using decimal_no_leading_zero [of n] by (simp add: int_str_def)
    moreover have "int_str (- int (Suc n)) = CHR ''-'' # int_str (int (Suc n))"
      unfolding int_str_def by (simp del: of_nat_Suc)
    then have "py_str (JInt (- int (Suc n))) = CHR ''-'' # py_str (JInt (int (Suc n)))"
      by simp
    ultimately show "number_from 0 (py_str (JInt (int n))) = Some n
            \<and> py_str (JInt (int n)) \<noteq> []
            \<and> (hd (py_str (JInt (int n))) \<noteq> CHR ''0'' \<or> py_str (JInt (int n)) = ''0'')
            \<and> py_str (JInt (- int (Suc n))) = CHR ''-'' # py_str (JInt (int (Suc n)))"
      by blast
  qed
  moreover have "\<forall>xs. py_str (JList xs) = ''['' @ comma_join (map py_repr xs) @ '']''"
    by simp
  moreover have "\<forall>kvs. py_str (JObj kvs) =
            ''{'' @ comma_join (map (\<lambda>(k, v). py_repr (JStr k) @ '': '' @ py_repr v) kvs) @ ''}''"
    by simp
  moreover have "\<forall>v. py_repr v = (case v of JStr s \<Rightarrow> str_repr s | other \<Rightarrow> py_str other)"
    by (simp split: json.splits)
  moreover have "\<forall>a b c. comma_join [] = [] \<and> comma_join [a] = a \<and>
            comma_join (a # b # c) = a @ '', '' @ comma_join (b # c)"
    by simp
  ultimately show ?thesis by - (intro conjI, assumption+)
qed

theorem notification_text_witness:
  "resolve_fields scenario1 =
     Inr \<lparr>image_tag = JStr ''v1.2'', repository = JStr ''myapp'', pushed_by = JStr ''123456789012''\<rparr>
   \<and> builtin_str cpython_platform = py_str
   \<and> (\<exists>item. calls (snd (lambda_handler example_config cpython_platform scenario1 empty_world)) =
         [PutItem ''image-log'' item,
          Publish ''arn:aws:sns:eu-west-1:42:pushes''
            ''Docker image pushed successfully!\<newline>Repository: myapp\<newline>Tag: v1.2\<newline>Pushed By: 123456789012\<newline>Timestamp: 2024-03-09T07:05:00.001234''
            ''ECR Image Push Notification''])
   \<and> (\<exists>item. calls (snd (lambda_handler example_config cpython_platform untyped_event empty_world)) =
         [PutItem ''image-log'' item,
          Publish ''arn:aws:sns:eu-west-1:42:pushes''
            ''Docker image pushed successfully!\<newline>Repository: ['a', {'k': True}]\<newline>Tag: 7\<newline>Pushed By: None\<newline>Timestamp: 2024-03-09T07:05:00.001234''
            ''ECR Image Push Notification''])"
proof -
  have r: "resolve_fields scenario1 =
     Inr \<lparr>image_tag = JStr ''v1.2'', repository = JStr ''myapp'', pushed_by = JStr ''123456789012''\<rparr>"
    by (simp add: scenario1_def resolve_fields_shape_A shape_A_def field_or_def)
  have q: "\<And>f. put_item_raises cpython_platform (DYNAMODB_TABLE example_config)
       (make_item f (isoformat (utcnow cpython_platform (clock_reads empty_world)))) = None"
    by (simp add: cpython_platform_def reliable_platform_def)
  have b: "builtin_str cpython_platform = py_str"
    by (simp add: cpython_platform_def)
  have e: "DYNAMODB_TABLE example_config = ''image-log''"
    "SNS_TOPIC_ARN example_config = ''arn:aws:sns:eu-west-1:42:pushes''"
    "calls empty_world = []"
    "isoformat (utcnow cpython_platform (clock_reads empty_world)) = ''2024-03-09T07:05:00.001234''"
    by (simp_all add: example_config_def empty_world_def cpython_platform_def
        reliable_platform_def isoformat_example_reading)
  from notification_text [OF r q b]
  have one: "\<exists>item. calls (snd (lambda_handler example_config cpython_platform scenario1 empty_world)) =
         [PutItem ''image-log'' item,
          Publish ''arn:aws:sns:eu-west-1:42:pushes''
            ''Docker image pushed successfully!\<newline>Repository: myapp\<newline>Tag: v1.2\<newline>Pushed By: 123456789012\<newline>Timestamp: 2024-03-09T07:05:00.001234''
            ''ECR Image Push Notification'']"
    by (simp add: e)
  from notification_text [OF resolve_fields_untyped_event q b, unfolded py_str_untyped_event e]
  have two: "\<exists>item. calls (snd (lambda_handler example_config cpython_platform untyped_event empty_world)) =
         [PutItem ''image-log'' item,
          Publish ''arn:aws:sns:eu-west-1:42:pushes''
            ''Docker image pushed successfully!\<newline>Repository: ['a', {'k': True}]\<newline>Tag: 7\<newline>Pushed By: None\<newline>Timestamp: 2024-03-09T07:05:00.001234''
            ''ECR Image Push Notification'']"
    by simp
  from r b one two show ?thesis by blast
qed

text \<open>What \<^verbatim>\<open>json.dumps\<close> makes of the confirmation string, and when the handler returns.\<close>

lemma json_dumps_confirmation:
  "json_dumps_str ''Lambda executed successfully!'' =
     [CHR 0x22] @ ''Lambda executed successfully!'' @ [CHR 0x22]"
  by (simp add: json_dumps_str_def json_escape_def)

lemma lambda_handler_returns:
  assumes "fst (lambda_handler cfg p event w) = Inr r"
  shows "\<exists>f. resolve_fields event = Inr f
      \<and> put_item_raises p (DYNAMODB_TABLE cfg)
           (make_item f (isoformat (utcnow p (clock_reads w)))) = None
      \<and> publish_raises p (SNS_TOPIC_ARN cfg)
           (make_message (builtin_str p) f (isoformat (utcnow p (clock_reads w))))
           ''ECR Image Push Notification'' = None"
proof (cases "resolve_fields event")
  case (Inl e)
  with assms show ?thesis by (simp add: lambda_handler_raises_early)
next
  case (Inr f)
  with assms show ?thesis
    by (simp add: lambda_handler_run [OF Inr] Let_def split: option.splits)
qed

text \<open>
  C5. Every invocation that returns, whatever the event and whether or not any field
  is a sentinel, returns the envelope with \<^verbatim>\<open>statusCode\<close> 200 and the body
  \<^verbatim>\<open>"Lambda executed successfully!"\<close>, the JSON encoding of the confirmation string with
  its two quotes; and the handler does return whenever field resolution succeeds and
  neither outbound call raises.
\<close>

theorem success_envelope:
  "(\<forall>r. fst (lambda_handler cfg p event w) = Inr r \<longrightarrow>
        r = \<lparr>statusCode = 200,
             body = [CHR 0x22] @ ''Lambda executed successfully!'' @ [CHR 0x22]\<rparr>)
   \<and> (\<forall>f. resolve_fields event = Inr f \<longrightarrow>
        put_item_raises p (DYNAMODB_TABLE cfg)
          (make_item f (isoformat (utcnow p (clock_reads w)))) = None \<longrightarrow>
        publish_raises p (SNS_TOPIC_ARN cfg)
          (make_message (builtin_str p) f (isoformat (utcnow p (clock_reads w))))
          ''ECR Image Push Notification'' = None \<longrightarrow>
        (\<exists>r. fst (lambda_handler cfg p event w) = Inr r))"
proof (intro conjI allI impI)
  fix r
  assume r: "fst (lambda_handler cfg p event w) = Inr r"
  from lambda_handler_returns [OF r] obtain f where f: "resolve_fields event = Inr f" by blast
  from r show "r = \<lparr>statusCode = 200,
      body = [CHR 0x22] @ ''Lambda executed successfully!'' @ [CHR 0x22]\<rparr>"
    unfolding json_dumps_confirmation [symmetric]
    by (simp add: lambda_handler_run [OF f] Let_def split: option.splits)
next
  fix f
  assume f: "resolve_fields event = Inr f"
    and "put_item_raises p (DYNAMODB_TABLE cfg)
          (make_item f (isoformat (utcnow p (clock_reads w)))) = None"
    and "publish_raises p (SNS_TOPIC_ARN cfg)
          (make_message (builtin_str p) f (isoformat (utcnow p (clock_reads w))))
          ''ECR Image Push Notification'' = None"
  then show "\<exists>r. fst (lambda_handler cfg p event w) = Inr r"
    by (simp add: lambda_handler_run [OF f] Let_def)
qed

theorem success_envelope_witness:
  "fst (lambda_handler example_config reliable_platform scenario3 empty_world) =
     Inr \<lparr>statusCode = 200, body = [CHR 0x22] @ ''Lambda executed successfully!'' @ [CHR 0x22]\<rparr>"
proof -
  have r: "resolve_fields scenario3 = Inr (shape_B [])"
    by (simp add: scenario3_def resolve_fields_shape_B)
  have "\<exists>r. fst (lambda_handler example_config reliable_platform scenario3 empty_world) = Inr r"
    using success_envelope [of example_config reliable_platform scenario3 empty_world] r
    by (simp add: reliable_platform_def)
  then obtain r where "fst (lambda_handler example_config reliable_platform scenario3 empty_world) = Inr r" ..
  with success_envelope [of example_config reliable_platform scenario3 empty_world]
  show ?thesis by simp
qed

text \<open>
  C6. The persisted \<^verbatim>\<open>Timestamp\<close> is \<^verbatim>\<open>isoformat()\<close> of the clock reading taken while the
  event is handled: a valid ISO-8601 string, which read back gives that clock reading, and
  no field of the event has a part in it, so two events handled at the same clock reading
  are persisted with the same timestamp. The reading is the one \<^verbatim>\<open>datetime.utcnow()\<close>
  returns, a UTC wall-clock time; the string itself carries no zone designator.
\<close>

theorem timestamp_from_clock:
  assumes "resolve_fields event1 = Inr f1" and "resolve_fields event2 = Inr f2"
    and "datetime_ok (utcnow p (clock_reads w))"
    and "put_item_raises p (DYNAMODB_TABLE cfg)
           (make_item f1 (isoformat (utcnow p (clock_reads w)))) = None"
    and "put_item_raises p (DYNAMODB_TABLE cfg)
           (make_item f2 (isoformat (utcnow p (clock_reads w)))) = None"
  shows "\<exists>ts item1 item2.
       stored (snd (lambda_handler cfg p event1 w)) = stored w @ [(DYNAMODB_TABLE cfg, item1)]
     \<and> stored (snd (lambda_handler cfg p event2 w)) = stored w @ [(DYNAMODB_TABLE cfg, item2)]
     \<and> map_of item1 ''Timestamp'' = Some (JStr ts)
     \<and> map_of item2 ''Timestamp'' = Some (JStr ts)
     \<and> ts = isoformat (utcnow p (clock_reads w))
     \<and> parse_iso8601 ts = Some (utcnow p (clock_reads w))"
proof -
  let ?ts = "isoformat (utcnow p (clock_reads w))"
  have "stored (snd (lambda_handler cfg p event1 w)) =
      stored w @ [(DYNAMODB_TABLE cfg, make_item f1 ?ts)]"
    using assms(4) by (simp add: lambda_handler_run [OF assms(1)] Let_def split: option.splits)
  moreover have "stored (snd (lambda_handler cfg p event2 w)) =
      stored w @ [(DYNAMODB_TABLE cfg, make_item f2 ?ts)]"
    using assms(5) by (simp add: lambda_handler_run [OF assms(2)] Let_def split: option.splits)
  moreover have "map_of (make_item f1 ?ts) ''Timestamp'' = Some (JStr ?ts)"
    "map_of (make_item f2 ?ts) ''Timestamp'' = Some (JStr ?ts)"
    by (simp_all add: make_item_def)
  moreover have "parse_iso8601 ?ts = Some (utcnow p (clock_reads w))"
    using assms(3) by (rule parse_isoformat)
  ultimately show ?thesis by blast
qed

theorem timestamp_from_clock_witness:
  "resolve_fields scenario1 = Inr (shape_A [(''account'', JStr ''123456789012'')]
       [(''image-tag'', JStr ''v1.2''), (''repository-name'', JStr ''myapp'')])
   \<and> resolve_fields scenario2 = Inr (shape_B [(''image_tag'', JStr ''latest''),
       (''repository'', JStr ''svc''), (''pushed_by'', JStr ''ci-bot'')])
   \<and> datetime_ok (utcnow reliable_platform (clock_reads empty_world))
   \<and> (\<exists>item1 item2.
       stored (snd (lambda_handler example_config reliable_platform scenario1 empty_world)) =
         [(''image-log'', item1)]
     \<and> stored (snd (lambda_handler example_config reliable_platform scenario2 empty_world)) =
         [(''image-log'', item2)]
     \<and> map_of item1 ''Timestamp'' = Some (JStr ''2024-03-09T07:05:00.001234'')
     \<and> map_of item2 ''Timestamp'' = Some (JStr ''2024-03-09T07:05:00.001234'')
     \<and> parse_iso8601 ''2024-03-09T07:05:00.001234'' = Some example_reading)"
proof -
  have r1: "resolve_fields scenario1 = Inr (shape_A [(''account'', JStr ''123456789012'')]
       [(''image-tag'', JStr ''v1.2''), (''repository-name'', JStr ''myapp'')])"
    by (simp add: scenario1_def resolve_fields_shape_A shape_A_def field_or_def)
  have r2: "resolve_fields scenario2 = Inr (shape_B [(''image_tag'', JStr ''latest''),
       (''repository'', JStr ''svc''), (''pushed_by'', JStr ''ci-bot'')])"
    by (simp add: scenario2_def resolve_fields_shape_B)
  have ok: "datetime_ok (utcnow reliable_platform (clock_reads empty_world))"
    by (simp add: reliable_platform_def example_reading_def datetime_ok_def days_in_month_def)
  have q: "\<And>f. put_item_raises reliable_platform (DYNAMODB_TABLE example_config)
      (make_item f (isoformat (utcnow reliable_platform (clock_reads empty_world)))) = None"
    by (simp add: reliable_platform_def)
  from timestamp_from_clock [OF r1 r2 ok q q]
  have "\<exists>item1 item2.
       stored (snd (lambda_handler example_config reliable_platform scenario1 empty_world)) =
         [(''image-log'', item1)]
     \<and> stored (snd (lambda_handler example_config reliable_platform scenario2 empty_world)) =
         [(''image-log'', item2)]
     \<and> map_of item1 ''Timestamp'' = Some (JStr ''2024-03-09T07:05:00.001234'')
     \<and> map_of item2 ''Timestamp'' = Some (JStr ''2024-03-09T07:05:00.001234'')
     \<and> parse_iso8601 ''2024-03-09T07:05:00.001234'' = Some example_reading"
    by (simp add: reliable_platform_def example_config_def empty_world_def
        isoformat_example_reading) blast
  with r1 r2 ok show ?thesis by simp
qed

text \<open>The fields of the first two scenarios.\<close>

lemma resolve_fields_scenario1:
  "resolve_fields scenario1 =
     Inr \<lparr>image_tag = JStr ''v1.2'', repository = JStr ''myapp'',
          pushed_by = JStr ''123456789012''\<rparr>"
  by (simp add: scenario1_def resolve_fields_shape_A shape_A_def field_or_def)

lemma resolve_fields_scenario2:
  "resolve_fields scenario2 =
     Inr \<lparr>image_tag = JStr ''latest'', repository = JStr ''svc'', pushed_by = JStr ''ci-bot''\<rparr>"
  by (simp add: scenario2_def resolve_fields_shape_B shape_B_def field_or_def)

text \<open>
  C7 as stated fails: when the persist call raises, the invocation has made one write
  request and no dispatch at all.
\<close>

theorem persist_fails_counterexample:
  "calls (snd (lambda_handler example_config store_down_platform scenario2 empty_world)) =
     [PutItem ''image-log''
        [(''Repository'', JStr ''svc''), (''ImageTag'', JStr ''latest''),
         (''PushedBy'', JStr ''ci-bot''), (''Timestamp'', JStr ''2024-03-09T07:05:00.001234'')]]
   \<and> delivered (snd (lambda_handler example_config store_down_platform scenario2 empty_world)) = []"
  by (simp add: lambda_handler_run [OF resolve_fields_scenario2] Let_def store_down_platform_def
      reliable_platform_def example_config_def empty_world_def make_item_def
      isoformat_example_reading)

text \<open>
  C7, amended. In every invocation the requests the handler sends are, in this order, at
  most one write to the store and at most one dispatch to the channel, and nothing else:
  none when field resolution raises, the write alone when the persist call raises, the
  write followed by the dispatch when the persist call has returned. The publish call is
  thus attempted only after the persist call has completed without raising, never before
  it. Every invocation that returns has performed exactly one write followed by exactly
  one dispatch, adding one record to the store and one message to the channel.
\<close>

theorem effects_in_order:
  "(\<exists>new. calls (snd (lambda_handler cfg p event w)) = calls w @ new \<and>
      (new = [] \<and> isl (resolve_fields event)
       \<or> (\<exists>item. new = [PutItem (DYNAMODB_TABLE cfg) item] \<and>
             put_item_raises p (DYNAMODB_TABLE cfg) item \<noteq> None)
       \<or> (\<exists>item msg. new = [PutItem (DYNAMODB_TABLE cfg) item,
                              Publish (SNS_TOPIC_ARN cfg) msg ''ECR Image Push Notification''] \<and>
             put_item_raises p (DYNAMODB_TABLE cfg) item = None)))
   \<and> (\<forall>r. fst (lambda_handler cfg p event w) = Inr r \<longrightarrow>
        (\<exists>item msg.
           calls (snd (lambda_handler cfg p event w)) = calls w @
             [PutItem (DYNAMODB_TABLE cfg) item,
              Publish (SNS_TOPIC_ARN cfg) msg ''ECR Image Push Notification''] \<and>
           stored (snd (lambda_handler cfg p event w)) =
             stored w @ [(DYNAMODB_TABLE cfg, item)] \<and>
           delivered (snd (lambda_handler cfg p event w)) =
             delivered w @ [(SNS_TOPIC_ARN cfg, msg, ''ECR Image Push Notification'')]))"
proof (cases "resolve_fields event")
  case (Inl e)
  then show ?thesis by (simp add: lambda_handler_raises_early)
next
  case (Inr f)
  let ?item = "make_item f (isoformat (utcnow p (clock_reads w)))"
  let ?msg = "make_message (builtin_str p) f (isoformat (utcnow p (clock_reads w)))"
  show ?thesis
  proof (cases "put_item_raises p (DYNAMODB_TABLE cfg) ?item")
    case (Some e)
    then have "lambda_handler cfg p event w =
        (Inl e, w\<lparr>clock_reads := Suc (clock_reads w),
                  calls := calls w @ [PutItem (DYNAMODB_TABLE cfg) ?item]\<rparr>)"
      by (simp add: lambda_handler_run [OF Inr] Let_def)
    with Some show ?thesis by auto
  next
    case None
    show ?thesis
    proof (cases "publish_raises p (SNS_TOPIC_ARN cfg) ?msg ''ECR Image Push Notification''")
      case (Some e)
      with None have "lambda_handler cfg p event w =
        (Inl e, w\<lparr>clock_reads := Suc (clock_reads w),
                  calls := calls w @ [PutItem (DYNAMODB_TABLE cfg) ?item,
                    Publish (SNS_TOPIC_ARN cfg) ?msg ''ECR Image Push Notification''],
                  stored := stored w @ [(DYNAMODB_TABLE cfg, ?item)]\<rparr>)"
        by (simp add: lambda_handler_run [OF Inr] Let_def)
      with None show ?thesis by auto
    next
      case pub: None
      with None have "lambda_handler cfg p event w =
        (Inr \<lparr>statusCode = 200, body = json_dumps_str ''Lambda executed successfully!''\<rparr>,
         w\<lparr>clock_reads := Suc (clock_reads w),
           calls := calls w @ [PutItem (DYNAMODB_TABLE cfg) ?item,
             Publish (SNS_TOPIC_ARN cfg) ?msg ''ECR Image Push Notification''],
           stored := stored w @ [(DYNAMODB_TABLE cfg, ?item)],
           delivered := delivered w @ [(SNS_TOPIC_ARN cfg, ?msg, ''ECR Image Push Notification'')]\<rparr>)"
        by (simp add: lambda_handler_run [OF Inr] Let_def)
      with None show ?thesis by auto
    qed
  qed
qed

theorem effects_in_order_witness:
  "(\<exists>r. fst (lambda_handler example_config reliable_platform scenario2 empty_world) = Inr r)
   \<and> (\<exists>item msg.
        calls (snd (lambda_handler example_config reliable_platform scenario2 empty_world)) =
          [PutItem ''image-log'' item,
           Publish ''arn:aws:sns:eu-west-1:42:pushes'' msg ''ECR Image Push Notification''] \<and>
        stored (snd (lambda_handler example_config reliable_platform scenario2 empty_world)) =
          [(''image-log'', item)] \<and>
        delivered (snd (lambda_handler example_config reliable_platform scenario2 empty_world)) =
          [(''arn:aws:sns:eu-west-1:42:pushes'', msg, ''ECR Image Push Notification'')])"
proof -
  have r: "\<exists>r. fst (lambda_handler example_config reliable_platform scenario2 empty_world) = Inr r"
    by (simp add: lambda_handler_run [OF resolve_fields_scenario2] Let_def reliable_platform_def)
  with effects_in_order [of example_config reliable_platform scenario2 empty_world]
  show ?thesis
    by (simp add: example_config_def empty_world_def)
qed

text \<open>
  C8. When the persist call raises, its error is the outcome of the invocation (no
  envelope is returned), the publish call is not made and nothing is stored or delivered.
  When the persist call succeeds and the publish call raises, that error is the outcome,
  and the record stored just before stays in the store: each call was made once, and no
  further request (no delete, no second attempt) follows.
\<close>

theorem failures_propagate:
  assumes "resolve_fields event = Inr f"
  shows "let ts = isoformat (utcnow p (clock_reads w));
             item = make_item f ts;
             msg = make_message (builtin_str p) f ts;
             R = lambda_handler cfg p event w
         in (\<forall>e. put_item_raises p (DYNAMODB_TABLE cfg) item = Some e \<longrightarrow>
               fst R = Inl e \<and>
               calls (snd R) = calls w @ [PutItem (DYNAMODB_TABLE cfg) item] \<and>
               stored (snd R) = stored w \<and> delivered (snd R) = delivered w)
          \<and> (\<forall>e. put_item_raises p (DYNAMODB_TABLE cfg) item = None \<longrightarrow>
               publish_raises p (SNS_TOPIC_ARN cfg) msg ''ECR Image Push Notification'' = Some e \<longrightarrow>
               fst R = Inl e \<and>
               calls (snd R) = calls w @ [PutItem (DYNAMODB_TABLE cfg) item,
                 Publish (SNS_TOPIC_ARN cfg) msg ''ECR Image Push Notification''] \<and>
               stored (snd R) = stored w @ [(DYNAMODB_TABLE cfg, item)] \<and>
               delivered (snd R) = delivered w)"
proof -
  let ?item = "make_item f (isoformat (utcnow p (clock_reads w)))"
  let ?msg = "make_message (builtin_str p) f (isoformat (utcnow p (clock_reads w)))"
  let ?R = "lambda_handler cfg p event w"
  have persist: "fst ?R = Inl e \<and>
      calls (snd ?R) = calls w @ [PutItem (DYNAMODB_TABLE cfg) ?item] \<and>
      stored (snd ?R) = stored w \<and> delivered (snd ?R) = delivered w"
    if "put_item_raises p (DYNAMODB_TABLE cfg) ?item = Some e" for e
    using that by (simp add: lambda_handler_run [OF assms] Let_def)
  have publish: "fst ?R = Inl e \<and>
      calls (snd ?R) = calls w @ [PutItem (DYNAMODB_TABLE cfg) ?item,
        Publish (SNS_TOPIC_ARN cfg) ?msg ''ECR Image Push Notification''] \<and>
      stored (snd ?R) = stored w @ [(DYNAMODB_TABLE cfg, ?item)] \<and>
      delivered (snd ?R) = delivered w"
    if "put_item_raises p (DYNAMODB_TABLE cfg) ?item = None"
      and "publish_raises p (SNS_TOPIC_ARN cfg) ?msg ''ECR Image Push Notification'' = Some e"
    for e
    using that by (simp add: lambda_handler_run [OF assms] Let_def)
  from persist publish show ?thesis
    unfolding Let_def by blast
qed

theorem failures_propagate_witness:
  "resolve_fields scenario2 =
     Inr \<lparr>image_tag = JStr ''latest'', repository = JStr ''svc'', pushed_by = JStr ''ci-bot''\<rparr>
   \<and> lambda_handler example_config store_down_platform scenario2 empty_world =
       (Inl (ClientError ''ResourceNotFoundException''),
        \<lparr>clock_reads = 1,
         calls = [PutItem ''image-log''
           [(''Repository'', JStr ''svc''), (''ImageTag'', JStr ''latest''),
            (''PushedBy'', JStr ''ci-bot''), (''Timestamp'', JStr ''2024-03-09T07:05:00.001234'')]],
         stored = [], delivered = []\<rparr>)
   \<and> fst (lambda_handler example_config topic_down_platform scenario2 empty_world) =
       Inl (ClientError ''NotFound'')
   \<and> stored (snd (lambda_handler example_config topic_down_platform scenario2 empty_world)) =
       [(''image-log'',
         [(''Repository'', JStr ''svc''), (''ImageTag'', JStr ''latest''),
          (''PushedBy'', JStr ''ci-bot''), (''Timestamp'', JStr ''2024-03-09T07:05:00.001234'')])]
   \<and> delivered (snd (lambda_handler example_config topic_down_platform scenario2 empty_world)) = []"
proof -
  note r = resolve_fields_scenario2
  from failures_propagate [OF r, of store_down_platform empty_world example_config]
  have a: "fst (lambda_handler example_config store_down_platform scenario2 empty_world) =
        Inl (ClientError ''ResourceNotFoundException'')
      \<and> calls (snd (lambda_handler example_config store_down_platform scenario2 empty_world)) =
        [PutItem ''image-log''
           [(''Repository'', JStr ''svc''), (''ImageTag'', JStr ''latest''),
            (''PushedBy'', JStr ''ci-bot''), (''Timestamp'', JStr ''2024-03-09T07:05:00.001234'')]]
      \<and> stored (snd (lambda_handler example_config store_down_platform scenario2 empty_world)) = []
      \<and> delivered (snd (lambda_handler example_config store_down_platform scenario2 empty_world)) = []"
    by (simp add: Let_def store_down_platform_def reliable_platform_def example_config_def
        empty_world_def make_item_def isoformat_example_reading)
  have c: "clock_reads (snd (lambda_handler example_config store_down_platform scenario2 empty_world)) = 1"
    by (simp add: lambda_handler_run [OF r] Let_def store_down_platform_def
        reliable_platform_def empty_world_def)
  from failures_propagate [OF r, of topic_down_platform empty_world example_config]
  have b: "fst (lambda_handler example_config topic_down_platform scenario2 empty_world) =
       Inl (ClientError ''NotFound'')
   \<and> stored (snd (lambda_handler example_config topic_down_platform scenario2 empty_world)) =
       [(''image-log'',
         [(''Repository'', JStr ''svc''), (''ImageTag'', JStr ''latest''),
          (''PushedBy'', JStr ''ci-bot''), (''Timestamp'', JStr ''2024-03-09T07:05:00.001234'')])]
   \<and> delivered (snd (lambda_handler example_config topic_down_platform scenario2 empty_world)) = []"
    by (simp add: Let_def topic_down_platform_def reliable_platform_def example_config_def
        empty_world_def make_item_def isoformat_example_reading)
  have "lambda_handler example_config store_down_platform scenario2 empty_world =
       (Inl (ClientError ''ResourceNotFoundException''),
        \<lparr>clock_reads = 1,
         calls = [PutItem ''image-log''
           [(''Repository'', JStr ''svc''), (''ImageTag'', JStr ''latest''),
            (''PushedBy'', JStr ''ci-bot''), (''Timestamp'', JStr ''2024-03-09T07:05:00.001234'')]],
         stored = [], delivered = []\<rparr>)"
    using a c by (simp add: prod_eq_iff)
  with r b show ?thesis by simp
qed

text \<open>
  C9. When \<^verbatim>\<open>DYNAMODB_TABLE\<close> or \<^verbatim>\<open>SNS_TOPIC_ARN\<close> is absent from the environment, the
  import of the module raises \<^verbatim>\<open>KeyError\<close> for a missing name, and an invocation on that
  environment ends with this error before the handler runs: the world is unchanged, so
  nothing is persisted or published.
\<close>

theorem missing_configuration_is_fatal:
  assumes "environ ''DYNAMODB_TABLE'' = None \<or> environ ''SNS_TOPIC_ARN'' = None"
  shows "\<exists>k. k \<in> {''DYNAMODB_TABLE'', ''SNS_TOPIC_ARN''} \<and> environ k = None
      \<and> module_init environ = Inl (KeyError k)
      \<and> cold_start environ p event w = (Inl (KeyError k), w)"
proof (cases "environ ''DYNAMODB_TABLE''")
  case None
  then have "module_init environ = Inl (KeyError ''DYNAMODB_TABLE'')"
    by (simp add: module_init_def)
  with None show ?thesis by (simp add: cold_start_def)
next
  case (Some t)
  with assms have n: "environ ''SNS_TOPIC_ARN'' = None" by simp
  with Some have "module_init environ = Inl (KeyError ''SNS_TOPIC_ARN'')"
    by (simp add: module_init_def)
  with n show ?thesis by (simp add: cold_start_def)
qed

theorem missing_configuration_is_fatal_witness:
  "([''DYNAMODB_TABLE'' \<mapsto> ''image-log''] ''DYNAMODB_TABLE'' = None \<or>
    [''DYNAMODB_TABLE'' \<mapsto> ''image-log''] ''SNS_TOPIC_ARN'' = None)
   \<and> cold_start [''DYNAMODB_TABLE'' \<mapsto> ''image-log''] reliable_platform scenario1 empty_world =
       (Inl (KeyError ''SNS_TOPIC_ARN''), empty_world)"
  using missing_configuration_is_fatal [of "[''DYNAMODB_TABLE'' \<mapsto> ''image-log'']"
      reliable_platform scenario1 empty_world]
  by auto

text \<open>
  C10 as stated fails: on an event whose \<^verbatim>\<open>detail\<close> entry is \<^verbatim>\<open>null\<close> line 22 raises
  before line 31 is reached, so the invocation ends without one read of the clock.
\<close>

theorem clock_not_read_counterexample:
  "clock_reads empty_world = 0
   \<and> clock_reads (snd (lambda_handler example_config reliable_platform
        (JObj [(''detail'', JNull)]) empty_world)) = 0
   \<and> fst (lambda_handler example_config reliable_platform
        (JObj [(''detail'', JNull)]) empty_world) = Inl AttributeError"
  by (simp add: lambda_handler_def resolve_fields_def bind_result_def empty_world_def)

text \<open>
  C10, amended. In every invocation the clock is read at most once: not at all when field
  resolution raises (then no outbound request is made either), and exactly once
  otherwise. In an invocation that reads it, the \<^verbatim>\<open>Timestamp\<close> attribute of the record
  sent to the store and the text after \<^verbatim>\<open>Timestamp:\<close> in the fifth line of the published
  message are the same string, the \<^verbatim>\<open>isoformat()\<close> of that one reading.
\<close>

theorem single_clock_reading:
  "let R = lambda_handler cfg p event w;
       ts = isoformat (utcnow p (clock_reads w))
   in (isl (resolve_fields event) \<and> calls (snd R) = calls w \<and>
       clock_reads (snd R) = clock_reads w)
    \<or> (clock_reads (snd R) = Suc (clock_reads w) \<and>
        (\<exists>item. map_of item ''Timestamp'' = Some (JStr ts) \<and>
           (calls (snd R) = calls w @ [PutItem (DYNAMODB_TABLE cfg) item] \<or>
            (\<exists>a b c. calls (snd R) = calls w @
               [PutItem (DYNAMODB_TABLE cfg) item,
                Publish (SNS_TOPIC_ARN cfg)
                  (''Docker image pushed successfully!\<newline>Repository: '' @ a @
                   ''\<newline>Tag: '' @ b @ ''\<newline>Pushed By: '' @ c @
                   ''\<newline>Timestamp: '' @ ts)
                  ''ECR Image Push Notification'']))))"
proof (cases "resolve_fields event")
  case (Inl e)
  then show ?thesis by (simp add: lambda_handler_raises_early)
next
  case (Inr f)
  let ?ts = "isoformat (utcnow p (clock_reads w))"
  let ?R = "lambda_handler cfg p event w"
  have ts: "map_of (make_item f ?ts) ''Timestamp'' = Some (JStr ?ts)"
    by (simp add: make_item_def)
  have reads: "clock_reads (snd ?R) = Suc (clock_reads w)"
    by (simp add: lambda_handler_run [OF Inr] Let_def split: option.splits)
  have "calls (snd ?R) = calls w @ [PutItem (DYNAMODB_TABLE cfg) (make_item f ?ts)] \<or>
        calls (snd ?R) = calls w @
          [PutItem (DYNAMODB_TABLE cfg) (make_item f ?ts),
           Publish (SNS_TOPIC_ARN cfg)
             (''Docker image pushed successfully!\<newline>Repository: '' @
              py_format (builtin_str p) (repository f) @ ''\<newline>Tag: '' @
              py_format (builtin_str p) (image_tag f) @ ''\<newline>Pushed By: '' @
              py_format (builtin_str p) (pushed_by f) @ ''\<newline>Timestamp: '' @ ?ts)
             ''ECR Image Push Notification'']"
    by (simp add: lambda_handler_run [OF Inr] Let_def make_message_def split: option.splits)
  then have "\<exists>item. map_of item ''Timestamp'' = Some (JStr ?ts) \<and>
           (calls (snd ?R) = calls w @ [PutItem (DYNAMODB_TABLE cfg) item] \<or>
            (\<exists>a b c. calls (snd ?R) = calls w @
               [PutItem (DYNAMODB_TABLE cfg) item,
                Publish (SNS_TOPIC_ARN cfg)
                  (''Docker image pushed successfully!\<newline>Repository: '' @ a @
                   ''\<newline>Tag: '' @ b @ ''\<newline>Pushed By: '' @ c @
                   ''\<newline>Timestamp: '' @ ?ts)
                  ''ECR Image Push Notification'']))"
    using ts by blast
  with reads show ?thesis by (simp add: Let_def)
qed

theorem single_clock_reading_witness:
  "clock_reads (snd (lambda_handler example_config reliable_platform scenario1 empty_world)) = 1
   \<and> (\<exists>item. map_of item ''Timestamp'' = Some (JStr ''2024-03-09T07:05:00.001234'') \<and>
        (\<exists>a b c. calls (snd (lambda_handler example_config reliable_platform scenario1 empty_world)) =
           [PutItem ''image-log'' item,
            Publish ''arn:aws:sns:eu-west-1:42:pushes''
              (''Docker image pushed successfully!\<newline>Repository: '' @ a @
               ''\<newline>Tag: '' @ b @ ''\<newline>Pushed By: '' @ c @
               ''\<newline>Timestamp: 2024-03-09T07:05:00.001234'')
              ''ECR Image Push Notification'']))"
proof -
  let ?R = "lambda_handler example_config reliable_platform scenario1 empty_world"
  have c: "DYNAMODB_TABLE example_config = ''image-log''"
    "SNS_TOPIC_ARN example_config = ''arn:aws:sns:eu-west-1:42:pushes''"
    by (simp_all add: example_config_def)
  have w: "clock_reads empty_world = 0" "calls empty_world = []"
    by (simp_all add: empty_world_def)
  have ts: "isoformat (utcnow reliable_platform 0) = ''2024-03-09T07:05:00.001234''"
    by (simp add: reliable_platform_def isoformat_example_reading)
  have n: "length (calls (snd ?R)) = 2"
    by (simp add: lambda_handler_run [OF resolve_fields_scenario1] Let_def reliable_platform_def
        empty_world_def)
  then have one: "\<And>item. calls (snd ?R) \<noteq> [PutItem ''image-log'' item]"
    by auto
  have r: "\<not> isl (resolve_fields scenario1)"
    by (simp add: resolve_fields_scenario1)
  from single_clock_reading [of example_config reliable_platform scenario1 empty_world] r
  have "clock_reads (snd ?R) = Suc 0 \<and>
        (\<exists>item. map_of item ''Timestamp'' = Some (JStr ''2024-03-09T07:05:00.001234'') \<and>
           (calls (snd ?R) = [PutItem ''image-log'' item] \<or>
            (\<exists>a b c. calls (snd ?R) =
               [PutItem ''image-log'' item,
                Publish ''arn:aws:sns:eu-west-1:42:pushes''
                  (''Docker image pushed successfully!\<newline>Repository: '' @ a @
                   ''\<newline>Tag: '' @ b @ ''\<newline>Pushed By: '' @ c @
                   ''\<newline>Timestamp: '' @ ''2024-03-09T07:05:00.001234'')
                  ''ECR Image Push Notification''])))"
    unfolding Let_def c w ts append_Nil by blast
  with one have "clock_reads (snd ?R) = Suc 0 \<and>
        (\<exists>item. map_of item ''Timestamp'' = Some (JStr ''2024-03-09T07:05:00.001234'') \<and>
            (\<exists>a b c. calls (snd ?R) =
               [PutItem ''image-log'' item,
                Publish ''arn:aws:sns:eu-west-1:42:pushes''
                  (''Docker image pushed successfully!\<newline>Repository: '' @ a @
                   ''\<newline>Tag: '' @ b @ ''\<newline>Pushed By: '' @ c @
                   ''\<newline>Timestamp: '' @ ''2024-03-09T07:05:00.001234'')
                  ''ECR Image Push Notification'']))"
    by blast
  then show ?thesis by simp
qed

end
